theory Spec2Isabelle
  imports Complex_Main "HOL-Library.Sublist" "HOL-Library.Word"
begin

section \<open>Values and effects of the browser front end\<close>

text \<open>
  The front end is a set of React components. A handler is modelled as a function from
  the component's state and its environment (the mint backend, the wallet, the algod node)
  to the list of effects it performs, in the order it performs them. A JavaScript
  exception is a value of type \<open>thrown\<close>; a \<open>try\<close> body is a pair of the effects
  performed so far and either the thrown value or the result.

  The amount field of the mint form is a JavaScript number, an IEEE double. It is set to
  \<open>Number(e.target.value)\<close> of a numeric input, whose value is the empty string or a
  valid decimal, so it is a finite double and never NaN; a finite double is modelled by
  the rational it denotes. The product \<open>algoAmount * 1_000_000\<close> is the exact
  product rounded to the nearest double, ties to even, or Infinity when it overflows.
\<close>

type_synonym bytes = "8 word list"

datatype jsval = JUndefined | JString string | JNumber int | JObject string

datatype thrown = ErrorObj string | NonError

datatype txn = Txn bytes

datatype endpoint = EpMint | EpSubmitFunding | EpCreateNft | EpOptin | EpSubmitOptin | EpTransferNft

datatype body =
    MintBody string string string "int option"
  | SignedTxnBody string
  | CreateBody jsval
  | OptinBody jsval string
  | TransferBody jsval jsval string

datatype response =
    FetchRejects thrown
  | Response bool nat "thrown + (string \<Rightarrow> jsval)"

datatype event =
    Alert string
  | Console string
  | SetLoading bool
  | SetStatus string
  | SetAssetName string
  | SetAssetUnit string
  | SetAlgoAmount rat
  | Fetch endpoint body
  | SignTransaction txn "string list"
  | AccountInformation string
  | ConnectorOn string

type_synonym 'a attempt = "event list \<times> (thrown + 'a)"

record mint_state =
  assetName :: string
  assetUnit :: string
  algoAmount :: rat

text \<open>
  What the mint page calls and does not define. \<open>backend\<close> is the answer of the
  service on port 8000 to a POST: either \<open>fetch\<close> rejects, or there is a response
  with its \<open>ok\<close> flag, its status and the outcome of \<open>res.json()\<close> (the parsed
  object as a map from field names, or the value it throws). \<open>atob\<close>, \<open>btoa\<close>,
  \<open>decodeUnsignedTransaction\<close> and \<open>signTransaction\<close> are the browser's, algosdk's
  and the wallet's functions. \<open>undefinedAccess\<close> is the TypeError of reading
  \<open>byteLength\<close> of \<open>undefined\<close>, which is what happens when the wallet returns an
  empty array. Console output is recorded by its label.
\<close>

record mint_env =
  backend :: "endpoint \<Rightarrow> body \<Rightarrow> response"
  atob :: "string \<Rightarrow> thrown + string"
  btoa :: "string \<Rightarrow> string"
  decodeUnsignedTransaction :: "bytes \<Rightarrow> thrown + txn"
  signTransaction :: "txn \<Rightarrow> string list \<Rightarrow> thrown + bytes list"
  undefinedAccess :: thrown

subsection \<open>Rendering of values in template strings\<close>

definition digit_char :: "nat \<Rightarrow> char" where
  "digit_char d = char_of (48 + d)"

fun show_nat :: "nat \<Rightarrow> string" where
  "show_nat n = (if n < 10 then [digit_char n] else show_nat (n div 10) @ [digit_char (n mod 10)])"

declare show_nat.simps [simp del]

definition show_int :: "int \<Rightarrow> string" where
  "show_int i = (if i < 0 then ''-'' @ show_nat (nat (- i)) else show_nat (nat i))"

fun js_to_string :: "jsval \<Rightarrow> string" where
  "js_to_string JUndefined = ''undefined''"
| "js_to_string (JString s) = s"
| "js_to_string (JNumber i) = show_int i"
| "js_to_string (JObject s) = s"

fun truthy :: "jsval \<Rightarrow> bool" where
  "truthy JUndefined = False"
| "truthy (JString s) = (s \<noteq> [])"
| "truthy (JNumber i) = (i \<noteq> 0)"
| "truthy (JObject s) = True"

definition newline :: string where
  "newline = [char_of (10::nat)]"

definition party_popper :: string where
  "party_popper = map char_of [240, 159, 142, 137 :: nat]"

subsection \<open>JavaScript numbers\<close>

text \<open>
  The number of binary digits of a positive integer, and the power of two with an integer
  exponent.
\<close>

function bitLength :: "int \<Rightarrow> int" where
  "bitLength n = (if n \<le> 0 then 0 else 1 + bitLength (n div 2))"
  by pat_completeness auto
termination
  by (relation "measure nat") auto

declare bitLength.simps [simp del]

definition pow2 :: "int \<Rightarrow> rat" where
  "pow2 k = (if 0 \<le> k then 2 ^ nat k else 1 / 2 ^ nat (- k))"

text \<open>For a positive rational \<open>x\<close>, the exponent \<open>e\<close> with \<open>2^e \<le> x < 2^(e+1)\<close>.\<close>

definition floorLog2 :: "rat \<Rightarrow> int" where
  "floorLog2 x =
     (case quotient_of x of
        (p, q) \<Rightarrow>
          (let e0 = bitLength p - bitLength q
           in if pow2 e0 \<le> x then e0 else e0 - 1))"

definition roundHalfEven :: "rat \<Rightarrow> int" where
  "roundHalfEven q =
     (let f = \<lfloor>q\<rfloor>; r = q - of_int f
      in if r < 1 / 2 then f
         else if 1 / 2 < r then f + 1
         else if even f then f else f + 1)"

text \<open>
  Rounding to the nearest double, ties to even: the significand has 53 binary digits, so in
  the binade of exponent \<open>e\<close> the doubles are the multiples of \<open>2^(e-52)\<close>; below
  \<open>2^(-1022)\<close> (the subnormal range) they are the multiples of \<open>2^(-1074)\<close>. The result
  is \<open>None\<close>, for an infinity, when the rounded magnitude reaches \<open>2^1024\<close>.
\<close>

definition roundDouble :: "rat \<Rightarrow> rat option" where
  "roundDouble x =
     (if x = 0 then Some 0
      else
        (let e = max (floorLog2 \<bar>x\<bar>) (- 1022);
             ulp = pow2 (e - 52);
             n = roundHalfEven (x / ulp)
         in if 1024 \<le> e \<or> (e = 1023 \<and> \<bar>n\<bar> = 9007199254740992) then None
            else Some (of_int n * ulp)))"

text \<open>
  \<open>Number(e.target.value)\<close> for a decimal typed into the amount field: the nearest
  double. (A decimal beyond the double range is not typed in any run below.)
\<close>

definition typed :: "rat \<Rightarrow> rat" where
  "typed x = (case roundDouble x of Some d \<Rightarrow> d | None \<Rightarrow> 0)"

text \<open>
  \<open>Math.floor(algoAmount * 1_000_000)\<close> as \<open>JSON.stringify\<close> writes it: the
  floor of the rounded product, or \<open>null\<close> (the floor of Infinity is Infinity, which
  JSON has no number for).
\<close>

definition lockedAmount :: "rat \<Rightarrow> int option" where
  "lockedAmount amountInAlgo =
     (case roundDouble (amountInAlgo * 1000000) of
        None \<Rightarrow> None
      | Some product \<Rightarrow> Some \<lfloor>product\<rfloor>)"

subsection \<open>The mint page (Mint.tsx)\<close>

definition andThen :: "'a attempt \<Rightarrow> ('a \<Rightarrow> 'b attempt) \<Rightarrow> 'b attempt" where
  "andThen m f =
     (case m of
        (es, Inl t) \<Rightarrow> (es, Inl t)
      | (es, Inr v) \<Rightarrow> (case f v of (es', r) \<Rightarrow> (es @ es', r)))"

definition emit :: "event list \<Rightarrow> unit attempt" where
  "emit es = (es, Inr ())"

definition errorMessage :: "thrown \<Rightarrow> string \<Rightarrow> string" where
  "errorMessage t dflt = (case t of ErrorObj m \<Rightarrow> m | NonError \<Rightarrow> dflt)"

definition base64ToTxn :: "mint_env \<Rightarrow> jsval \<Rightarrow> txn attempt" where
  "base64ToTxn env b64Txn =
     (case (case atob env (js_to_string b64Txn) of
              Inl t \<Rightarrow> Inl t
            | Inr binaryString \<Rightarrow> decodeUnsignedTransaction env (map of_char binaryString)) of
        Inl error \<Rightarrow>
          ([Console ''Error decoding transaction:''],
           Inl (ErrorObj (''Failed to decode transaction: '' @ errorMessage error ''Unknown error'')))
      | Inr t \<Rightarrow> ([], Inr t))"

definition uint8ToBase64 :: "mint_env \<Rightarrow> bytes \<Rightarrow> string" where
  "uint8ToBase64 env u8 = btoa env (map (\<lambda>b. char_of (unat b)) u8)"

text \<open>\<open>uint8ToBase64(signedTxns[0])\<close>, where the array may be empty.\<close>

definition firstToBase64 :: "mint_env \<Rightarrow> bytes list \<Rightarrow> string attempt" where
  "firstToBase64 env signedTxns =
     (case signedTxns of
        [] \<Rightarrow> ([], Inl (undefinedAccess env))
      | u8 # _ \<Rightarrow> ([], Inr (uint8ToBase64 env u8)))"

definition sign :: "mint_env \<Rightarrow> txn \<Rightarrow> string \<Rightarrow> bytes list attempt" where
  "sign env t walletAddress =
     ([SignTransaction t [walletAddress]],
      signTransaction env t [walletAddress])"

definition post :: "mint_env \<Rightarrow> endpoint \<Rightarrow> body \<Rightarrow> (nat \<Rightarrow> string) \<Rightarrow> (string \<Rightarrow> jsval) attempt" where
  "post env ep b dflt =
     (case backend env ep b of
        FetchRejects t \<Rightarrow> ([Fetch ep b], Inl t)
      | Response ok status js \<Rightarrow>
          if \<not> ok then
            (case js of
               Inl t \<Rightarrow> ([Fetch ep b], Inl t)
             | Inr errorData \<Rightarrow>
                 ([Fetch ep b],
                  Inl (ErrorObj (if truthy (errorData ''detail'')
                                 then js_to_string (errorData ''detail'')
                                 else dflt status))))
          else
            (case js of
               Inl t \<Rightarrow> ([Fetch ep b], Inl t)
             | Inr d \<Rightarrow> ([Fetch ep b], Inr d)))"

text \<open>
  The body of the \<open>try\<close> block of \<open>handleSubmit\<close>, statement by statement: each
  \<open>await\<close> that can throw is one \<open>andThen\<close>, and the first one that throws ends
  the body.
\<close>

definition mintFlow :: "mint_env \<Rightarrow> string \<Rightarrow> mint_state \<Rightarrow> unit attempt" where
  "mintFlow env walletAddress s =
     andThen (emit [SetStatus ''Getting funding transaction...'']) (\<lambda>_.
     andThen (post env EpMint
                (MintBody walletAddress (assetName s) (assetUnit s)
                   (lockedAmount (algoAmount s)))
                (\<lambda>status. ''Backend error: '' @ show_nat status)) (\<lambda>data1.
     andThen (emit [Console ''Mint response:'',
                    SetStatus ''Please sign funding transaction in Pera Wallet...'']) (\<lambda>_.
     andThen (base64ToTxn env (data1 ''funding_txn'')) (\<lambda>fundTxn.
     andThen (sign env fundTxn walletAddress) (\<lambda>signedFundTxns.
     andThen (firstToBase64 env signedFundTxns) (\<lambda>signedFundB64.
     andThen (emit [SetStatus ''Submitting funding transaction...'']) (\<lambda>_.
     andThen (post env EpSubmitFunding (SignedTxnBody signedFundB64)
                (\<lambda>_. ''Failed to submit funding transaction'')) (\<lambda>fundSubmitData.
     andThen (emit [Console ''Funding submitted:'', SetStatus ''Creating NFT asset...'']) (\<lambda>_.
     andThen (post env EpCreateNft (CreateBody (data1 ''escrow_address''))
                (\<lambda>_. ''Failed to create NFT'')) (\<lambda>createData.
     andThen (emit [Console ''NFT created:'', SetStatus ''Getting opt-in transaction...'']) (\<lambda>_.
     andThen (post env EpOptin (OptinBody (createData ''asset_id'') walletAddress)
                (\<lambda>_. ''Failed to get opt-in transaction'')) (\<lambda>optinData.
     andThen (emit [Console ''Opt-in response:'',
                    SetStatus ''Please sign opt-in transaction in Pera Wallet...'']) (\<lambda>_.
     andThen (base64ToTxn env (optinData ''optin_txn'')) (\<lambda>optInTxn.
     andThen (sign env optInTxn walletAddress) (\<lambda>signedOptInTxns.
     andThen (firstToBase64 env signedOptInTxns) (\<lambda>signedOptInB64.
     andThen (emit [SetStatus ''Submitting opt-in transaction...'']) (\<lambda>_.
     andThen (post env EpSubmitOptin (SignedTxnBody signedOptInB64)
                (\<lambda>_. ''Failed to submit opt-in transaction'')) (\<lambda>optinSubmitData.
     andThen (emit [Console ''Opt-in submitted:'',
                    SetStatus ''Transferring NFT to your wallet...'']) (\<lambda>_.
     andThen (post env EpTransferNft
                (TransferBody (data1 ''escrow_address'') (createData ''asset_id'') walletAddress)
                (\<lambda>_. ''Failed to transfer NFT'')) (\<lambda>transferData.
     emit [Console ''NFT transferred:'',
           SetStatus ''Success! NFT minted and transferred!'',
           Alert (party_popper @ '' NFT Minted Successfully!'' @ newline @ newline
                  @ ''Asset ID: '' @ js_to_string (createData ''asset_id'') @ newline
                  @ ''Transaction: '' @ js_to_string (transferData ''txid'') @ newline @ newline
                  @ ''Check your Pera Wallet!''),
           SetAssetName [], SetAssetUnit [], SetAlgoAmount 0, SetStatus []]
     ))))))))))))))))))))"

definition handleSubmit :: "mint_env \<Rightarrow> string option \<Rightarrow> mint_state \<Rightarrow> event list" where
  "handleSubmit env walletAddress s =
     (case walletAddress of
        None \<Rightarrow> [Alert ''Connect wallet first!'']
      | Some w \<Rightarrow>
          if w = [] then [Alert ''Connect wallet first!'']
          else if assetName s = [] \<or> assetUnit s = [] \<or> algoAmount s \<le> 0
          then [Alert ''Please fill all fields with valid values!'']
          else [SetLoading True, SetStatus ''Preparing mint...'']
               @ (case mintFlow env w s of
                    (es, Inr _) \<Rightarrow> es
                  | (es, Inl err) \<Rightarrow>
                      es @ [Console ''Error during minting:'',
                            Alert (''Minting failed: ''
                                   @ errorMessage err ''Unknown error occurred''
                                   @ newline @ newline @ ''Check console for details.''),
                            SetStatus (''Error: '' @ errorMessage err ''Unknown error occurred'')])
               @ [SetLoading False])"

subsection \<open>Reading a run of the mint handler\<close>

datatype step = Post endpoint | WalletSign | AlgodRead

fun interaction :: "event \<Rightarrow> bool" where
  "interaction (Fetch ep b) = True"
| "interaction (SignTransaction t signers) = True"
| "interaction (AccountInformation a) = True"
| "interaction e = False"

fun stepKind :: "event \<Rightarrow> step" where
  "stepKind (Fetch ep b) = Post ep"
| "stepKind (SignTransaction t signers) = WalletSign"
| "stepKind e = AlgodRead"

fun stepOk :: "mint_env \<Rightarrow> event \<Rightarrow> bool" where
  "stepOk env (Fetch ep b) =
     (case backend env ep b of
        FetchRejects t \<Rightarrow> False
      | Response ok status js \<Rightarrow> (case js of Inl t \<Rightarrow> False | Inr d \<Rightarrow> ok))"
| "stepOk env (SignTransaction t signers) =
     (case signTransaction env t signers of Inl e \<Rightarrow> False | Inr signedTxns \<Rightarrow> True)"
| "stepOk env e = True"

definition mintSteps :: "step list" where
  "mintSteps =
     [Post EpMint, WalletSign, Post EpSubmitFunding, Post EpCreateNft,
      Post EpOptin, WalletSign, Post EpSubmitOptin, Post EpTransferNft]"

fun ledgerMutating :: "step \<Rightarrow> bool" where
  "ledgerMutating (Post EpSubmitFunding) = True"
| "ledgerMutating (Post EpCreateNft) = True"
| "ledgerMutating (Post EpSubmitOptin) = True"
| "ledgerMutating (Post EpTransferNft) = True"
| "ledgerMutating st = False"

definition steps :: "event list \<Rightarrow> event list" where
  "steps tr = filter interaction tr"

definition afterTransfer :: "event list \<Rightarrow> event list" where
  "afterTransfer tr = tl (dropWhile (\<lambda>e. stepKind e \<noteq> Post EpTransferNft) tr)"

definition validRequest :: "string option \<Rightarrow> mint_state \<Rightarrow> bool" where
  "validRequest walletAddress s =
     (case walletAddress of
        None \<Rightarrow> False
      | Some w \<Rightarrow> w \<noteq> [] \<and> assetName s \<noteq> [] \<and> assetUnit s \<noteq> [] \<and> 0 < algoAmount s)"

definition reportsSuccess :: "event list \<Rightarrow> bool" where
  "reportsSuccess tr = (SetStatus ''Success! NFT minted and transferred!'' \<in> set tr)"

fun submission :: "event \<Rightarrow> bool" where
  "submission (Fetch ep b) = True"
| "submission (SignTransaction t signers) = True"
| "submission e = False"

text \<open>
  Three properties of a \<open>try\<close> body that compose along \<open>andThen\<close>. A body is
  a \<open>stage\<close> for a list of step kinds when its interactions are of these kinds in this
  order, all of them answered, if it returns, and a prefix of them, all but the last one
  answered, if it throws.
\<close>

definition stage :: "mint_env \<Rightarrow> step list \<Rightarrow> 'a attempt \<Rightarrow> bool" where
  "stage env L m =
     (case m of
        (es, Inr v) \<Rightarrow> map stepKind (steps es) = L \<and> list_all (stepOk env) (steps es)
      | (es, Inl t) \<Rightarrow>
          prefix (map stepKind (steps es)) L \<and> list_all (stepOk env) (butlast (steps es)))"

definition quiet :: "'a attempt \<Rightarrow> bool" where
  "quiet m = (\<not> reportsSuccess (fst m))"

definition failsQuiet :: "'a attempt \<Rightarrow> bool" where
  "failsQuiet m = (case m of (es, Inl t) \<Rightarrow> \<not> reportsSuccess es | (es, Inr v) \<Rightarrow> True)"

definition everyEvent :: "(event \<Rightarrow> bool) \<Rightarrow> 'a attempt \<Rightarrow> bool" where
  "everyEvent Q m = list_all Q (fst m)"

definition mintBodyOk :: "string \<Rightarrow> mint_state \<Rightarrow> event \<Rightarrow> bool" where
  "mintBodyOk w s e =
     (case e of
        Fetch ep b \<Rightarrow>
          ep \<noteq> EpMint \<or> b = MintBody w (assetName s) (assetUnit s) (lockedAmount (algoAmount s))
      | _ \<Rightarrow> True)"

text \<open>
  How a run ended. The \<open>catch\<close> block of \<open>handleSubmit\<close> logs under the label
  that \<open>mintFailed\<close> looks for, and \<open>base64ToTxn\<close> under the one that
  \<open>decodeFailed\<close> looks for. A step has failed when the request was not answered with
  an ok response and a body, or when the wallet rejected the signature or returned no
  signed transaction.
\<close>

definition mintFailed :: "event list \<Rightarrow> bool" where
  "mintFailed tr = (Console ''Error during minting:'' \<in> set tr)"

definition decodeFailed :: "event list \<Rightarrow> bool" where
  "decodeFailed tr = (Console ''Error decoding transaction:'' \<in> set tr)"

fun stepFailed :: "mint_env \<Rightarrow> event \<Rightarrow> bool" where
  "stepFailed env (Fetch ep b) =
     (case backend env ep b of
        FetchRejects t \<Rightarrow> True
      | Response ok status js \<Rightarrow> (case js of Inl t \<Rightarrow> True | Inr d \<Rightarrow> \<not> ok))"
| "stepFailed env (SignTransaction t signers) =
     (case signTransaction env t signers of Inl e \<Rightarrow> True | Inr signedTxns \<Rightarrow> signedTxns = [])"
| "stepFailed env e = False"

definition failureCause :: "mint_env \<Rightarrow> event list \<Rightarrow> bool" where
  "failureCause env tr =
     (decodeFailed tr \<or> (steps tr \<noteq> [] \<and> stepFailed env (last (steps tr))))"

definition succeedsLoud :: "'a attempt \<Rightarrow> bool" where
  "succeedsLoud m = (case m of (es, Inr v) \<Rightarrow> reportsSuccess es | (es, Inl t) \<Rightarrow> True)"

definition causeOk :: "mint_env \<Rightarrow> 'a attempt \<Rightarrow> bool" where
  "causeOk env m = (case m of (es, Inl t) \<Rightarrow> failureCause env es | (es, Inr v) \<Rightarrow> True)"

definition notCatch :: "event \<Rightarrow> bool" where
  "notCatch e = (e \<noteq> Console ''Error during minting:'')"

subsection \<open>The redeem page (Redeem.tsx)\<close>

record NFTAsset =
  assetId :: nat
  name :: string
  unitName :: string
  amount :: nat

record asset_holding =
  holdingAssetId :: nat
  holdingAmount :: nat
  holdingDecimals :: "nat option"

record redeem_state =
  nfts :: "NFTAsset list"
  selectedNFT :: "NFTAsset option"

datatype redeem_view =
    ConnectWalletMessage
  | NoRedeemableMessage
  | NftGrid "NFTAsset list" "NFTAsset option"

datatype redeem_action =
    WalletChanged "string option" "thrown + asset_holding list"
  | ClickNft nat
  | ClickBurn

definition noWallet :: "string option \<Rightarrow> bool" where
  "noWallet walletAddress = (case walletAddress of None \<Rightarrow> True | Some w \<Rightarrow> w = [])"

definition initialRedeem :: redeem_state where
  "initialRedeem = \<lparr>nfts = [], selectedNFT = None\<rparr>"

text \<open>
  The effect that runs when the page mounts and whenever the wallet address changes. The
  second argument is what the algod node answers to the account query; the lines that
  would filter the holdings and call \<open>setNfts\<close> are commented out in the source, so the
  answer is dropped and the state is returned as it was.
\<close>

definition fetchNFTs ::
  "string option \<Rightarrow> (thrown + asset_holding list) \<Rightarrow> redeem_state \<Rightarrow> event list \<times> redeem_state" where
  "fetchNFTs walletAddress answer s =
     (case walletAddress of
        None \<Rightarrow> ([], s)
      | Some w \<Rightarrow>
          if w = [] then ([], s)
          else (case answer of
                  Inl err \<Rightarrow> ([AccountInformation w, Console ''Error fetching NFTs:''], s)
                | Inr accountInfo \<Rightarrow> ([AccountInformation w], s)))"

definition handleBurn :: "redeem_state \<Rightarrow> event list" where
  "handleBurn s =
     (case selectedNFT s of
        None \<Rightarrow> [Alert ''Select an NFT to burn'']
      | Some nft \<Rightarrow> [Alert (''Burn NFT with Asset ID: '' @ show_nat (assetId nft))])"

definition renderRedeem :: "string option \<Rightarrow> redeem_state \<Rightarrow> redeem_view" where
  "renderRedeem walletAddress s =
     (if noWallet walletAddress then ConnectWalletMessage
      else if length (nfts s) = 0 then NoRedeemableMessage
      else NftGrid (nfts s) (selectedNFT s))"

definition emptyRedeem :: "redeem_state \<Rightarrow> bool" where
  "emptyRedeem s = (nfts s = [] \<and> selectedNFT s = None)"

text \<open>
  One thing that can happen to the mounted page: the wallet context changes (the effect
  runs again), a card of the grid is clicked, or the burn button is clicked. Cards and
  button exist only in the grid view; elsewhere the click has nothing to land on.
\<close>

fun redeemStep ::
  "string option \<times> redeem_state \<Rightarrow> redeem_action \<Rightarrow> event list \<times> (string option \<times> redeem_state)" where
  "redeemStep (w, s) (WalletChanged w' answer) =
     (case fetchNFTs w' answer s of (es, s') \<Rightarrow> (es, (w', s')))"
| "redeemStep (w, s) (ClickNft i) =
     (case renderRedeem w s of
        NftGrid shown sel \<Rightarrow>
          if i < length shown then ([], (w, s\<lparr>selectedNFT := Some (shown ! i)\<rparr>))
          else ([], (w, s))
      | _ \<Rightarrow> ([], (w, s)))"
| "redeemStep (w, s) ClickBurn =
     (case renderRedeem w s of
        NftGrid shown sel \<Rightarrow> (handleBurn s, (w, s))
      | _ \<Rightarrow> ([], (w, s)))"

fun redeemRun ::
  "string option \<times> redeem_state \<Rightarrow> redeem_action list \<Rightarrow> event list \<times> (string option \<times> redeem_state)" where
  "redeemRun c [] = ([], c)"
| "redeemRun c (a # as) =
     (case redeemStep c a of
        (es, c') \<Rightarrow> (case redeemRun c' as of (es', c'') \<Rightarrow> (es @ es', c'')))"

definition redeemPage ::
  "string option \<Rightarrow> (thrown + asset_holding list) \<Rightarrow> redeem_action list
     \<Rightarrow> event list \<times> (string option \<times> redeem_state)" where
  "redeemPage walletAddress answer as =
     redeemRun (None, initialRedeem) (WalletChanged walletAddress answer # as)"

subsection \<open>The wallet context and the navigation bar (WalletContext.tsx, Navbar.tsx)\<close>

datatype provider_fn = ProviderConnectWallet | ProviderDisconnectWallet

datatype ctx_member =
    AddressMember "string option"
  | PeraWalletMember
  | FunctionMember provider_fn

record wallet_env =
  providerConnect :: "thrown + string list"
  navbarConnect :: "thrown + string list"
  connectorPresent :: bool

text \<open>The object that \<open>WalletProvider\<close> passes down, as a map from member names.\<close>

definition providerValue :: "string option \<Rightarrow> (string \<rightharpoonup> ctx_member)" where
  "providerValue walletAddress =
     [''walletAddress'' \<mapsto> AddressMember walletAddress,
      ''peraWallet'' \<mapsto> PeraWalletMember,
      ''connectWallet'' \<mapsto> FunctionMember ProviderConnectWallet,
      ''disconnectWallet'' \<mapsto> FunctionMember ProviderDisconnectWallet]"

fun callProviderFn ::
  "wallet_env \<Rightarrow> provider_fn \<Rightarrow> string option \<Rightarrow> event list \<times> string option" where
  "callProviderFn env ProviderConnectWallet st =
     (case providerConnect env of
        Inl err \<Rightarrow> ([Console ''Wallet connection failed:''], st)
      | Inr accounts \<Rightarrow> (case accounts of [] \<Rightarrow> ([], st) | a # _ \<Rightarrow> ([], Some a)))"
| "callProviderFn env ProviderDisconnectWallet st = ([], None)"

text \<open>
  Calling a destructured member: a member that the object does not have is
  \<open>undefined\<close>, and calling it throws a TypeError.
\<close>

definition callMember ::
  "wallet_env \<Rightarrow> string \<Rightarrow> ctx_member option \<Rightarrow> string option \<Rightarrow> (event list \<times> string option) attempt" where
  "callMember env nm m st =
     (case m of
        Some (FunctionMember f) \<Rightarrow> ([], Inr (callProviderFn env f st))
      | _ \<Rightarrow> ([], Inl (ErrorObj (nm @ '' is not a function''))))"

record navbar_outcome =
  effects :: "event list"
  caught :: "thrown option"
  addressAfter :: "string option"

definition navbarConnectWallet ::
  "wallet_env \<Rightarrow> (string \<rightharpoonup> ctx_member) \<Rightarrow> string option \<Rightarrow> navbar_outcome" where
  "navbarConnectWallet env ctx st =
     (let setWalletAddress = ctx ''setWalletAddress'';
          listener = (if connectorPresent env then [ConnectorOn ''disconnect''] else [])
      in case (case navbarConnect env of
                 Inl err \<Rightarrow> ([], Inl err)
               | Inr accounts \<Rightarrow>
                   (case accounts of
                      [] \<Rightarrow> (listener, Inr st)
                    | a # _ \<Rightarrow>
                        (case callMember env ''setWalletAddress'' setWalletAddress st of
                           (es, Inl err) \<Rightarrow> (es, Inl err)
                         | (es, Inr (es', st')) \<Rightarrow> (es @ es' @ listener, Inr st')))) of
           (es, Inl error) \<Rightarrow>
             \<lparr>effects = es @ [Console ''Wallet connection failed:''],
              caught = Some error, addressAfter = st\<rparr>
         | (es, Inr st') \<Rightarrow> \<lparr>effects = es, caught = None, addressAfter = st'\<rparr>)"

definition navbarButton :: "string option \<Rightarrow> string" where
  "navbarButton walletAddress =
     (case walletAddress of
        None \<Rightarrow> ''Connect Wallet''
      | Some w \<Rightarrow>
          if w = [] then ''Connect Wallet''
          else take 6 w @ ''...'' @ drop (length w - 4) w)"

section \<open>The mint and redeem protocol behind the front end\<close>

text \<open>
  The scripts and the backend that compute the redeemable amount and submit the
  redemption (redeemV4.py, the service on port 8000) are described
  by the README and the specification but are not among the sources. What the theorems
  below need of them is written down from the specification.
\<close>

subsection \<open>The redeemable amount\<close>

text \<open>
  Modelled from the spec: step 5 of the RedeemOrchestrator (OwnershipVerified to
  AmountComputed), whose source is missing. The embedded \<open>locked_amount\<close> is used
  directly when the metadata has it; otherwise the amount is the escrow's current balance
  less the minimum reserve and the fee buffer, clamped to zero if negative.
\<close>

definition computeAmount :: "int option \<Rightarrow> int \<Rightarrow> int \<Rightarrow> int \<Rightarrow> int" where
  "computeAmount locked_amount escrowCurrentBalance minimumReserveRequirement feeBuffer =
     (case locked_amount of
        Some stored \<Rightarrow> stored
      | None \<Rightarrow>
          (let d = escrowCurrentBalance - minimumReserveRequirement - feeBuffer
           in if d < 0 then 0 else d))"

subsection \<open>A ledger with atomic groups\<close>

text \<open>
  Modelled from the spec: the ledger state that the LedgerGateway reads and writes (no
  source here): the balance of each account in microAlgos and the units of each asset that
  each account holds; and the two kinds of transaction the redemption submits.
\<close>

record ledger =
  microAlgos :: "string \<Rightarrow> int"
  assetUnits :: "string \<Rightarrow> nat \<Rightarrow> nat"

datatype ledger_txn =
    AssetTransfer string string nat nat
  | Payment string string int

text \<open>
  Modelled from the spec: the LedgerGateway's ledger, which is an external collaborator
  with no source here, as the mock ledger of the testable properties. A transaction is
  rejected when the mock is told to reject it (\<open>rejects\<close>) or when the sender does not
  hold what it sends.
\<close>

fun applyTxn :: "(ledger_txn \<Rightarrow> bool) \<Rightarrow> ledger \<Rightarrow> ledger_txn \<Rightarrow> ledger option" where
  "applyTxn rejects L (AssetTransfer sender receiver asset n) =
     (if rejects (AssetTransfer sender receiver asset n) \<or> assetUnits L sender asset < n
      then None
      else
        (let h1 = (assetUnits L)(sender := (assetUnits L sender)(asset := assetUnits L sender asset - n));
             h2 = h1(receiver := (h1 receiver)(asset := h1 receiver asset + n))
         in Some (L\<lparr>assetUnits := h2\<rparr>)))"
| "applyTxn rejects L (Payment sender receiver amt) =
     (if rejects (Payment sender receiver amt) \<or> amt < 0 \<or> microAlgos L sender < amt
      then None
      else
        (let b1 = (microAlgos L)(sender := microAlgos L sender - amt);
             b2 = b1(receiver := b1 receiver + amt)
         in Some (L\<lparr>microAlgos := b2\<rparr>)))"

text \<open>
  Modelled from the spec: an atomic group, "a set of transactions that the ledger commits
  or rejects as a single unit" (the ledger's group submission has no source here). The
  transactions are applied in order to a working copy; the copy replaces the ledger only
  if every one of them was accepted.
\<close>

fun applyGroup :: "(ledger_txn \<Rightarrow> bool) \<Rightarrow> ledger \<Rightarrow> ledger_txn list \<Rightarrow> ledger option" where
  "applyGroup rejects L [] = Some L"
| "applyGroup rejects L (t # ts) =
     (case applyTxn rejects L t of
        None \<Rightarrow> None
      | Some L' \<Rightarrow> applyGroup rejects L' ts)"

text \<open>
  Modelled from the spec: the submission of a group to the ledger (no source here), which
  returns the ledger afterwards and whether the group was committed.
\<close>

definition submitGroup ::
  "(ledger_txn \<Rightarrow> bool) \<Rightarrow> ledger \<Rightarrow> ledger_txn list \<Rightarrow> ledger \<times> bool" where
  "submitGroup rejects L g =
     (case applyGroup rejects L g of
        None \<Rightarrow> (L, False)
      | Some L' \<Rightarrow> (L', True))"

text \<open>
  Modelled from the spec: step 6 of the RedeemOrchestrator (AmountComputed to Redeemed),
  whose source is missing: the group of (a) the redeemer's transfer of the single asset
  unit to the escrow and (b) the escrow's payment of the computed amount to the redeemer.
\<close>

definition redemptionGroup :: "string \<Rightarrow> string \<Rightarrow> nat \<Rightarrow> int \<Rightarrow> ledger_txn list" where
  "redemptionGroup redeemer escrow asset payout =
     [AssetTransfer redeemer escrow asset 1, Payment escrow redeemer payout]"

text \<open>
  Modelled from the spec: the submission of that group by the RedeemOrchestrator, whose
  source is missing.
\<close>

definition redeemSwap ::
  "(ledger_txn \<Rightarrow> bool) \<Rightarrow> ledger \<Rightarrow> string \<Rightarrow> string \<Rightarrow> nat \<Rightarrow> int \<Rightarrow> ledger \<times> bool" where
  "redeemSwap rejects L redeemer escrow asset payout =
     submitGroup rejects L (redemptionGroup redeemer escrow asset payout)"

section \<open>Concrete runs\<close>

definition okBackend :: "endpoint \<Rightarrow> body \<Rightarrow> response" where
  "okBackend ep b =
     Response True 200
       (Inr (\<lambda>k. if k = ''asset_id'' then JNumber 42
                 else if k = ''txid'' then JString ''TXID''
                 else if k = ''escrow_address'' then JString ''ESCROW''
                 else if k = ''funding_txn'' \<or> k = ''optin_txn'' then JString ''QUJD''
                 else JUndefined))"

definition okEnv :: mint_env where
  "okEnv =
     \<lparr>backend = okBackend,
      atob = (\<lambda>b64. Inr ''ABC''),
      btoa = (\<lambda>binary. ''QUJD''),
      decodeUnsignedTransaction = (\<lambda>bs. Inr (Txn bs)),
      signTransaction = (\<lambda>t signers. Inr [case t of Txn bs \<Rightarrow> bs]),
      undefinedAccess = ErrorObj ''Cannot read properties of undefined''\<rparr>"

definition ticket :: mint_state where
  "ticket = \<lparr>assetName = ''Ticket'', assetUnit = ''TCK'', algoAmount = 5\<rparr>"

definition dust :: mint_state where
  "dust = \<lparr>assetName = ''Ticket'', assetUnit = ''TCK'', algoAmount = typed (1 / 2000000)\<rparr>"

definition eightPointTwo :: mint_state where
  "eightPointTwo = \<lparr>assetName = ''Ticket'', assetUnit = ''TCK'', algoAmount = typed (41 / 5)\<rparr>"

definition createFails :: mint_env where
  "createFails =
     okEnv\<lparr>backend := (\<lambda>ep b. if ep = EpCreateNft then Response False 500 (Inr (\<lambda>k. JUndefined))
                              else okBackend ep b)\<rparr>"

definition acceptAll :: "ledger_txn \<Rightarrow> bool" where
  "acceptAll t = False"

definition rejectPayments :: "ledger_txn \<Rightarrow> bool" where
  "rejectPayments t = (case t of Payment sender receiver amt \<Rightarrow> True | _ \<Rightarrow> False)"

definition ledger0 :: ledger where
  "ledger0 =
     \<lparr>microAlgos = (\<lambda>a. if a = ''ESCROW'' then 5200000 else 0),
      assetUnits = (\<lambda>a k. if a = ''REDEEMER'' \<and> k = 7 then 1 else 0)\<rparr>"

definition walletEnv0 :: wallet_env where
  "walletEnv0 =
     \<lparr>providerConnect = Inr [''ADDR''], navbarConnect = Inr [''ADDR''], connectorPresent = True\<rparr>"

definition ticketHolding :: asset_holding where
  "ticketHolding = \<lparr>holdingAssetId = 42, holdingAmount = 1, holdingDecimals = Some 0\<rparr>"

definition ticketNft :: NFTAsset where
  "ticketNft = \<lparr>assetId = 42, name = ''Ticket'', unitName = ''TCK'', amount = 1\<rparr>"

section \<open>Composition lemmas for the mint flow\<close>

lemma steps_append: "steps (xs @ ys) = steps xs @ steps ys"
  by (simp add: steps_def)

lemma stage_andThen:
  assumes "stage env xs m" and "\<And>v. stage env ys (f v)"
  shows "stage env (xs @ ys) (andThen m f)"
proof (cases m)
  case (Pair es r)
  show ?thesis
  proof (cases r)
    case (Inl t)
    with Pair assms(1) show ?thesis
      by (simp add: stage_def andThen_def)
  next
    case (Inr v)
    obtain es' r' where fv: "f v = (es', r')" by (cases "f v")
    from assms(2)[of v] fv have st': "stage env ys (es', r')" by simp
    from Pair Inr assms(1)
    have m1: "map stepKind (steps es) = xs" "list_all (stepOk env) (steps es)"
      by (simp_all add: stage_def)
    show ?thesis
    proof (cases r')
      case (Inr u)
      with st' m1 Pair \<open>r = Inr v\<close> fv show ?thesis
        by (simp add: stage_def andThen_def steps_append)
    next
      case (Inl t)
      with st' have p: "prefix (map stepKind (steps es')) ys"
          "list_all (stepOk env) (butlast (steps es'))"
        by (simp_all add: stage_def)
      have "list_all (stepOk env) (butlast (steps es @ steps es'))"
        using m1(2) p(2)
        by (cases "steps es' = []")
           (auto simp: butlast_append list_all_iff dest: in_set_butlastD)
      with p(1) m1(1) Pair \<open>r = Inr v\<close> fv Inl show ?thesis
        by (simp add: stage_def andThen_def steps_append)
    qed
  qed
qed

lemma stage_emit: "steps es = [] \<Longrightarrow> stage env [] (emit es)"
  by (simp add: stage_def emit_def)

lemma stage_post: "stage env [Post ep] (post env ep b d)"
  by (simp add: stage_def post_def steps_def split: response.splits sum.splits)

lemma stage_base64ToTxn: "stage env [] (base64ToTxn env v)"
  by (simp add: stage_def base64ToTxn_def steps_def split: sum.splits)

lemma stage_sign: "stage env [WalletSign] (sign env t w)"
  by (simp add: stage_def sign_def steps_def split: sum.splits)

lemma stage_firstToBase64: "stage env [] (firstToBase64 env xs)"
  by (simp add: stage_def firstToBase64_def steps_def split: list.splits)

lemma stage_mintFlow: "stage env mintSteps (mintFlow env w s)"
proof -
  have "stage env ([] @ [Post EpMint] @ [] @ [] @ [WalletSign] @ [] @ [] @ [Post EpSubmitFunding]
          @ [] @ [Post EpCreateNft] @ [] @ [Post EpOptin] @ [] @ [] @ [WalletSign] @ [] @ []
          @ [Post EpSubmitOptin] @ [] @ [Post EpTransferNft] @ []) (mintFlow env w s)"
    unfolding mintFlow_def
    by (intro stage_andThen stage_emit stage_post stage_base64ToTxn stage_sign stage_firstToBase64)
       (simp_all add: steps_def)
  then show ?thesis by (simp add: mintSteps_def)
qed

lemma stage_prefix:
  "stage env L m \<Longrightarrow>
     prefix (map stepKind (steps (fst m))) L \<and> list_all (stepOk env) (butlast (steps (fst m)))"
  by (cases m) (auto simp: stage_def list_all_iff split: sum.splits dest: in_set_butlastD)

lemma failsQuiet_andThen:
  assumes "quiet m" and "\<And>v. failsQuiet (f v)"
  shows "failsQuiet (andThen m f)"
proof (cases m)
  case (Pair es r)
  show ?thesis
  proof (cases r)
    case (Inl t)
    with Pair assms(1) show ?thesis by (simp add: failsQuiet_def quiet_def andThen_def)
  next
    case (Inr v)
    obtain es' r' where fv: "f v = (es', r')" by (cases "f v")
    with assms(2)[of v] assms(1) Pair Inr show ?thesis
      by (cases r') (auto simp: failsQuiet_def quiet_def andThen_def reportsSuccess_def)
  qed
qed

lemma quiet_emit: "\<not> reportsSuccess es \<Longrightarrow> quiet (emit es)"
  by (simp add: quiet_def emit_def)

lemma quiet_post: "quiet (post env ep b d)"
  by (simp add: quiet_def post_def reportsSuccess_def split: response.splits sum.splits)

lemma quiet_base64ToTxn: "quiet (base64ToTxn env v)"
  by (simp add: quiet_def base64ToTxn_def reportsSuccess_def split: sum.splits)

lemma quiet_sign: "quiet (sign env t w)"
  by (simp add: quiet_def sign_def reportsSuccess_def)

lemma quiet_firstToBase64: "quiet (firstToBase64 env xs)"
  by (simp add: quiet_def firstToBase64_def reportsSuccess_def split: list.splits)

lemma failsQuiet_emit: "failsQuiet (emit es)"
  by (simp add: failsQuiet_def emit_def)

lemma failsQuiet_mintFlow: "failsQuiet (mintFlow env w s)"
  unfolding mintFlow_def
  by (intro failsQuiet_andThen quiet_emit quiet_post quiet_base64ToTxn quiet_sign
        quiet_firstToBase64 failsQuiet_emit)
     (simp_all add: reportsSuccess_def)

lemma everyEvent_andThen:
  assumes "everyEvent Q m" and "\<And>v. everyEvent Q (f v)"
  shows "everyEvent Q (andThen m f)"
proof (cases m)
  case (Pair es r)
  show ?thesis
  proof (cases r)
    case (Inl t)
    with Pair assms(1) show ?thesis by (simp add: everyEvent_def andThen_def)
  next
    case (Inr v)
    obtain es' r' where fv: "f v = (es', r')" by (cases "f v")
    with assms(2)[of v] assms(1) Pair Inr show ?thesis
      by (simp add: everyEvent_def andThen_def)
  qed
qed

lemma everyEvent_emit: "list_all Q es \<Longrightarrow> everyEvent Q (emit es)"
  by (simp add: everyEvent_def emit_def)

lemma everyEvent_post: "Q (Fetch ep b) \<Longrightarrow> everyEvent Q (post env ep b d)"
  by (simp add: everyEvent_def post_def split: response.splits sum.splits)

lemma everyEvent_base64ToTxn:
  "Q (Console ''Error decoding transaction:'') \<Longrightarrow> everyEvent Q (base64ToTxn env v)"
  by (simp add: everyEvent_def base64ToTxn_def split: sum.splits)

lemma everyEvent_sign: "Q (SignTransaction t [w]) \<Longrightarrow> everyEvent Q (sign env t w)"
  by (simp add: everyEvent_def sign_def)

lemma everyEvent_firstToBase64: "everyEvent Q (firstToBase64 env xs)"
  by (simp add: everyEvent_def firstToBase64_def split: list.splits)

lemma mintBodyOk_mintFlow: "everyEvent (mintBodyOk w s) (mintFlow env w s)"
  unfolding mintFlow_def
  by (intro everyEvent_andThen everyEvent_emit everyEvent_post everyEvent_base64ToTxn
        everyEvent_sign everyEvent_firstToBase64)
     (simp_all add: mintBodyOk_def)

lemma mintFlow_starts:
  "\<exists>rest. fst (mintFlow env w s) =
     SetStatus ''Getting funding transaction...''
     # Fetch EpMint (MintBody w (assetName s) (assetUnit s) (lockedAmount (algoAmount s))) # rest"
proof -
  have p: "\<And>ep b d f. \<exists>rest. fst (andThen (post env ep b d) f) = Fetch ep b # rest"
    by (auto simp: andThen_def post_def split: prod.splits response.splits sum.splits)
  have c: "\<And>es f. fst (andThen (emit es) f) = es @ fst (f ())"
    by (simp add: andThen_def emit_def split: prod.splits)
  show ?thesis
    unfolding mintFlow_def
    by (subst c) (use p in simp)
qed

lemma succeedsLoud_andThen:
  assumes "\<And>v. succeedsLoud (f v)"
  shows "succeedsLoud (andThen m f)"
proof (cases m)
  case (Pair es r)
  show ?thesis
  proof (cases r)
    case (Inl t)
    with Pair show ?thesis by (simp add: succeedsLoud_def andThen_def)
  next
    case (Inr v)
    obtain es' r' where fv: "f v = (es', r')" by (cases "f v")
    with assms [of v] Pair Inr show ?thesis
      by (cases r') (auto simp: succeedsLoud_def andThen_def reportsSuccess_def)
  qed
qed

lemma succeedsLoud_emit: "reportsSuccess es \<Longrightarrow> succeedsLoud (emit es)"
  by (simp add: succeedsLoud_def emit_def)

lemma succeedsLoud_mintFlow: "succeedsLoud (mintFlow env w s)"
  unfolding mintFlow_def
  by (intro succeedsLoud_andThen succeedsLoud_emit) (simp add: reportsSuccess_def)

lemma failureCause_append:
  "failureCause env es' \<Longrightarrow> failureCause env (es @ es')"
  by (auto simp: failureCause_def decodeFailed_def steps_append)

lemma causeOk_andThen:
  assumes "causeOk env m" and "\<And>v. causeOk env (f v)"
  shows "causeOk env (andThen m f)"
proof (cases m)
  case (Pair es r)
  show ?thesis
  proof (cases r)
    case (Inl t)
    with Pair assms(1) show ?thesis by (simp add: causeOk_def andThen_def)
  next
    case (Inr v)
    obtain es' r' where fv: "f v = (es', r')" by (cases "f v")
    with assms(2) [of v] Pair Inr show ?thesis
      by (cases r') (auto simp: causeOk_def andThen_def intro: failureCause_append)
  qed
qed

lemma causeOk_sign:
  assumes "\<And>b. causeOk env (k b)"
  shows "causeOk env (andThen (sign env t w) (\<lambda>sg. andThen (firstToBase64 env sg) k))"
proof (cases "signTransaction env t [w]")
  case (Inl e)
  then show ?thesis
    by (simp add: causeOk_def andThen_def sign_def failureCause_def steps_def)
next
  case (Inr sg)
  show ?thesis
  proof (cases sg)
    case Nil
    with Inr show ?thesis
      by (simp add: causeOk_def andThen_def sign_def firstToBase64_def failureCause_def steps_def)
  next
    case (Cons u us)
    obtain es' r' where kb: "k (uint8ToBase64 env u) = (es', r')"
      by (cases "k (uint8ToBase64 env u)")
    from assms [of "uint8ToBase64 env u"] kb have "causeOk env (es', r')" by simp
    then have "causeOk env (SignTransaction t [w] # es', r')"
      using failureCause_append [of env es' "[SignTransaction t [w]]"]
      by (cases r') (simp_all add: causeOk_def)
    with Inr Cons kb show ?thesis
      by (simp add: andThen_def sign_def firstToBase64_def)
  qed
qed

lemma causeOk_emit: "causeOk env (emit es)"
  by (simp add: causeOk_def emit_def)

lemma causeOk_post: "causeOk env (post env ep b d)"
  by (simp add: causeOk_def post_def failureCause_def steps_def split: response.splits sum.splits)

lemma causeOk_base64ToTxn: "causeOk env (base64ToTxn env v)"
  by (simp add: causeOk_def base64ToTxn_def failureCause_def decodeFailed_def split: sum.splits)

lemma causeOk_mintFlow: "causeOk env (mintFlow env w s)"
  unfolding mintFlow_def
  by (intro causeOk_sign causeOk_andThen causeOk_emit causeOk_post causeOk_base64ToTxn)

lemma notCatch_mintFlow: "everyEvent notCatch (mintFlow env w s)"
  unfolding mintFlow_def
  by (intro everyEvent_andThen everyEvent_emit everyEvent_post everyEvent_base64ToTxn
        everyEvent_sign everyEvent_firstToBase64)
     (simp_all add: notCatch_def)

section \<open>The mint handler as a whole\<close>

lemma handleSubmit_invalid:
  "\<not> validRequest w s \<Longrightarrow>
     steps (handleSubmit env w s) = [] \<and> \<not> reportsSuccess (handleSubmit env w s)"
  by (auto simp: validRequest_def handleSubmit_def steps_def reportsSuccess_def
           split: option.splits)

lemma handleSubmit_valid:
  assumes "validRequest (Some a) s"
  shows "handleSubmit env (Some a) s =
           [SetLoading True, SetStatus ''Preparing mint...'']
           @ (case mintFlow env a s of
                (es, Inr u) \<Rightarrow> es
              | (es, Inl err) \<Rightarrow>
                  es @ [Console ''Error during minting:'',
                        Alert (''Minting failed: ''
                               @ errorMessage err ''Unknown error occurred''
                               @ newline @ newline @ ''Check console for details.''),
                        SetStatus (''Error: '' @ errorMessage err ''Unknown error occurred'')])
           @ [SetLoading False]"
  using assms by (auto simp: validRequest_def handleSubmit_def)

lemma steps_handleSubmit_valid:
  "validRequest (Some a) s \<Longrightarrow> steps (handleSubmit env (Some a) s) = steps (fst (mintFlow env a s))"
  by (simp add: handleSubmit_valid steps_def split: prod.splits sum.splits)

lemma validRequest_Some: "validRequest w s \<Longrightarrow> \<exists>a. w = Some a"
  by (cases w) (simp_all add: validRequest_def)

lemma reportsSuccess_handleSubmit:
  assumes "reportsSuccess (handleSubmit env w s)"
  shows "\<exists>a es. w = Some a \<and> validRequest w s \<and> mintFlow env a s = (es, Inr ())"
proof -
  from assms have v: "validRequest w s" using handleSubmit_invalid by blast
  then obtain a where w: "w = Some a" using validRequest_Some by blast
  obtain es r where m: "mintFlow env a s = (es, r)" by (cases "mintFlow env a s")
  have "\<exists>u. r = Inr u"
  proof (cases r)
    case (Inl t)
    with failsQuiet_mintFlow [of env a s] m have "\<not> reportsSuccess es"
      by (simp add: failsQuiet_def)
    with assms v w m Inl show ?thesis
      by (simp add: handleSubmit_valid reportsSuccess_def)
  next
    case (Inr u)
    then show ?thesis by simp
  qed
  with v w m show ?thesis by simp
qed

lemma steps_dropWhile:
  "steps (tl (dropWhile (\<lambda>e. stepKind e \<noteq> Post ep) tr))
     = tl (dropWhile (\<lambda>e. stepKind e \<noteq> Post ep) (steps tr))"
proof (induction tr)
  case Nil
  show ?case by (simp add: steps_def)
next
  case (Cons e tr)
  then show ?case by (cases e) (simp_all add: steps_def)
qed

lemmas run_defs = handleSubmit_def mintFlow_def andThen_def emit_def post_def okEnv_def
  okBackend_def base64ToTxn_def sign_def firstToBase64_def uint8ToBase64_def

lemma show_int_42: "show_int 42 = ''42''"
  by code_simp

lemma show_nat_42: "show_nat 42 = ''42''"
  by code_simp

lemma lockedAmount_5: "lockedAmount 5 = Some 5000000"
  by code_simp

lemma typed_dust: "\<not> typed (1 / 2000000) \<le> 0"
  by code_simp

lemma lockedAmount_dust: "lockedAmount (typed (1 / 2000000)) = Some 0"
  by code_simp

lemma typed_8_2: "\<not> typed (41 / 5) \<le> 0"
  by code_simp

lemma lockedAmount_8_2: "lockedAmount (typed (41 / 5)) = Some 8199999"
  by code_simp

lemma handleSubmit_failed:
  assumes "validRequest (Some a) s" and "mintFlow env a s = (es, Inl t)"
  shows "mintFailed (handleSubmit env (Some a) s)
         \<and> \<not> reportsSuccess (handleSubmit env (Some a) s)
         \<and> failureCause env (handleSubmit env (Some a) s)"
proof -
  from failsQuiet_mintFlow [of env a s] assms(2) have q: "\<not> reportsSuccess es"
    by (simp add: failsQuiet_def)
  from causeOk_mintFlow [of env a s] assms(2) have c: "failureCause env es"
    by (simp add: causeOk_def)
  have st: "steps (handleSubmit env (Some a) s) = steps es"
    using assms by (simp add: steps_handleSubmit_valid)
  from c have "failureCause env (handleSubmit env (Some a) s)"
    unfolding failureCause_def st
    using assms by (auto simp: handleSubmit_valid decodeFailed_def)
  with q assms show ?thesis
    by (simp add: handleSubmit_valid mintFailed_def reportsSuccess_def)
qed

lemma handleSubmit_succeeded:
  assumes "validRequest (Some a) s" and "mintFlow env a s = (es, Inr u)"
  shows "map stepKind (steps (handleSubmit env (Some a) s)) = mintSteps
         \<and> list_all (stepOk env) (steps (handleSubmit env (Some a) s))
         \<and> reportsSuccess (handleSubmit env (Some a) s)
         \<and> \<not> mintFailed (handleSubmit env (Some a) s)"
proof -
  from stage_mintFlow [of env a s] assms(2)
  have k: "map stepKind (steps es) = mintSteps" and ok: "list_all (stepOk env) (steps es)"
    by (simp_all add: stage_def)
  from succeedsLoud_mintFlow [of env a s] assms(2) have l: "reportsSuccess es"
    by (simp add: succeedsLoud_def)
  from notCatch_mintFlow [of env a s] assms(2) have n: "Console ''Error during minting:'' \<notin> set es"
    by (auto simp: everyEvent_def list_all_iff notCatch_def)
  have st: "steps (handleSubmit env (Some a) s) = steps es"
    using assms by (simp add: steps_handleSubmit_valid)
  from k ok l n st assms show ?thesis
    by (simp add: handleSubmit_valid mintFailed_def reportsSuccess_def)
qed

lemma handleSubmit_not_started:
  "\<not> validRequest w s \<Longrightarrow> \<not> mintFailed (handleSubmit env w s)"
  by (auto simp: validRequest_def handleSubmit_def mintFailed_def split: option.splits)

lemma ticket_steps:
  "steps (handleSubmit okEnv (Some ''ADDR'') ticket) =
     [Fetch EpMint (MintBody ''ADDR'' ''Ticket'' ''TCK'' (Some 5000000)),
      SignTransaction (Txn [65, 66, 67]) [''ADDR''],
      Fetch EpSubmitFunding (SignedTxnBody ''QUJD''),
      Fetch EpCreateNft (CreateBody (JString ''ESCROW'')),
      Fetch EpOptin (OptinBody (JNumber 42) ''ADDR''),
      SignTransaction (Txn [65, 66, 67]) [''ADDR''],
      Fetch EpSubmitOptin (SignedTxnBody ''QUJD''),
      Fetch EpTransferNft (TransferBody (JString ''ESCROW'') (JNumber 42) ''ADDR'')]"
  by (simp add: run_defs ticket_def steps_def lockedAmount_5)

lemma ticket_reportsSuccess: "reportsSuccess (handleSubmit okEnv (Some ''ADDR'') ticket)"
  by (simp add: run_defs ticket_def reportsSuccess_def)

lemma createFails_steps:
  "steps (handleSubmit createFails (Some ''ADDR'') ticket) =
     [Fetch EpMint (MintBody ''ADDR'' ''Ticket'' ''TCK'' (Some 5000000)),
      SignTransaction (Txn [65, 66, 67]) [''ADDR''],
      Fetch EpSubmitFunding (SignedTxnBody ''QUJD''),
      Fetch EpCreateNft (CreateBody (JString ''ESCROW''))]"
  by (simp add: run_defs createFails_def ticket_def steps_def lockedAmount_5)

lemma ticket_valid: "validRequest (Some ''ADDR'') ticket"
  by (simp add: validRequest_def ticket_def)

lemma createFails_failed:
  "mintFailed (handleSubmit createFails (Some ''ADDR'') ticket)
   \<and> \<not> reportsSuccess (handleSubmit createFails (Some ''ADDR'') ticket)"
  by (simp add: run_defs createFails_def ticket_def mintFailed_def reportsSuccess_def)

section \<open>The claims about the mint page\<close>

text \<open>
  C1, as the specification states it, does not hold of \<open>handleSubmit\<close>: in the run
  where every backend request, every decoding and every signature succeeds, success is
  reported, and what the handler does after the transfer request is only to log, to set the
  status, to show the alert and to reset the form. There is no further request to the
  backend or to the ledger after the transfer, so no on-chain parameter is fetched again
  and no fingerprint or reserve address is compared before success is reported.
\<close>

theorem mint_reports_success_unverified:
  "reportsSuccess (handleSubmit okEnv (Some ''ADDR'') ticket)
   \<and> steps (afterTransfer (handleSubmit okEnv (Some ''ADDR'') ticket)) = []
   \<and> afterTransfer (handleSubmit okEnv (Some ''ADDR'') ticket) =
       [Console ''NFT transferred:'',
        SetStatus ''Success! NFT minted and transferred!'',
        Alert (party_popper @ '' NFT Minted Successfully!'' @ newline @ newline
               @ ''Asset ID: 42'' @ newline @ ''Transaction: TXID'' @ newline @ newline
               @ ''Check your Pera Wallet!''),
        SetAssetName [], SetAssetUnit [], SetAlgoAmount 0, SetStatus [], SetLoading False]"
  by (simp add: run_defs ticket_def steps_def reportsSuccess_def afterTransfer_def show_int_42)

text \<open>
  C1, amended: whenever \<open>handleSubmit\<close> reports success, its interactions were exactly
  the eight of the mint flow in their order (the mint request, the signature of the funding
  transaction, its submission, the asset creation, the opt-in request, its signature, its
  submission, the transfer), each of them was answered successfully, and nothing was
  requested from the backend, the wallet or the ledger after the transfer: success is
  reported as soon as the transfer request has succeeded, without a verification step of
  the front end's own.
\<close>

theorem success_after_transfer_only:
  assumes "reportsSuccess (handleSubmit env w s)"
  shows "map stepKind (steps (handleSubmit env w s)) = mintSteps
         \<and> list_all (stepOk env) (steps (handleSubmit env w s))
         \<and> steps (afterTransfer (handleSubmit env w s)) = []"
proof -
  from reportsSuccess_handleSubmit [OF assms] obtain a es
    where w: "w = Some a" and v: "validRequest w s" and m: "mintFlow env a s = (es, Inr ())"
    by blast
  from stage_mintFlow [of env a s] m
  have k: "map stepKind (steps es) = mintSteps" and ok: "list_all (stepOk env) (steps es)"
    by (simp_all add: stage_def)
  have st: "steps (handleSubmit env w s) = steps es"
    using v w m by (simp add: steps_handleSubmit_valid)
  from k have "tl (dropWhile (\<lambda>e. stepKind e \<noteq> Post EpTransferNft) (steps es)) = []"
    by (auto simp: mintSteps_def map_eq_Cons_conv)
  then have "steps (afterTransfer (handleSubmit env w s)) = []"
    by (simp add: afterTransfer_def steps_dropWhile st)
  with k ok st show ?thesis by simp
qed

theorem success_after_transfer_only_witness:
  "reportsSuccess (handleSubmit okEnv (Some ''ADDR'') ticket)
   \<and> map stepKind (steps (handleSubmit okEnv (Some ''ADDR'') ticket)) = mintSteps
   \<and> list_all (stepOk okEnv) (steps (handleSubmit okEnv (Some ''ADDR'') ticket))
   \<and> steps (afterTransfer (handleSubmit okEnv (Some ''ADDR'') ticket)) = []"
  by (rule conjI [OF ticket_reportsSuccess success_after_transfer_only [OF ticket_reportsSuccess]])

text \<open>
  C4: a mint request whose locked amount is not strictly positive must fail validation and
  must not reach the backend. The handler compares the amount in ALGO with zero before it
  converts it to microAlgos, so an amount below one microAlgo passes: for 0.0000005 ALGO
  (the double that the input hands over for this decimal) the
  first thing the run does with the outside world is to post a mint request whose
  \<open>locked_amount\<close> is 0, and with a backend that accepts it the run goes on to report
  success.
\<close>

theorem dust_request_is_submitted:
  "0 < algoAmount dust
   \<and> hd (steps (handleSubmit okEnv (Some ''ADDR'') dust))
       = Fetch EpMint (MintBody ''ADDR'' ''Ticket'' ''TCK'' (Some 0))
   \<and> reportsSuccess (handleSubmit okEnv (Some ''ADDR'') dust)"
  using typed_dust
  by (simp add: run_defs dust_def steps_def reportsSuccess_def lockedAmount_dust)

text \<open>
  What does hold of the validation: without a wallet, with an empty name, an empty unit or
  an amount in ALGO that is not strictly positive, the handler shows one alert and does
  nothing else.
\<close>

lemma handleSubmit_rejects:
  "\<not> validRequest w s \<Longrightarrow>
     handleSubmit env w s = [Alert ''Connect wallet first!'']
     \<or> handleSubmit env w s = [Alert ''Please fill all fields with valid values!'']"
  by (auto simp: validRequest_def handleSubmit_def split: option.splits)

text \<open>
  C5: in every run of \<open>handleSubmit\<close> the interactions with the backend and the wallet
  are an initial segment of the mint flow's fixed order; every interaction but the last one
  of the run was answered successfully, so a step is never started before the one before
  it has completed and a failing step is the last one of its run; and the ledger-mutating
  requests among them come in the order funding, asset creation, opt-in, transfer. A run
  that passes validation ends in one of two ways. Either it has performed all eight steps
  of the flow, each answered successfully, and reports success without entering the
  \<open>catch\<close> block; or it has entered the \<open>catch\<close> block and does not report
  success, and then something did fail: a transaction could not be decoded, or the last
  step performed was not answered successfully (or was a signature that the wallet
  rejected or returned empty). A run that does not pass validation performs no step.
\<close>

theorem mint_steps_in_order:
  "prefix (map stepKind (steps (handleSubmit env w s))) mintSteps
   \<and> list_all (stepOk env) (butlast (steps (handleSubmit env w s)))
   \<and> prefix (filter ledgerMutating (map stepKind (steps (handleSubmit env w s))))
        [Post EpSubmitFunding, Post EpCreateNft, Post EpSubmitOptin, Post EpTransferNft]
   \<and> (validRequest w s \<longrightarrow>
        (map stepKind (steps (handleSubmit env w s)) = mintSteps
         \<and> list_all (stepOk env) (steps (handleSubmit env w s))
         \<and> reportsSuccess (handleSubmit env w s)
         \<and> \<not> mintFailed (handleSubmit env w s))
        \<or> (mintFailed (handleSubmit env w s)
           \<and> \<not> reportsSuccess (handleSubmit env w s)
           \<and> failureCause env (handleSubmit env w s)))
   \<and> (\<not> validRequest w s \<longrightarrow>
        steps (handleSubmit env w s) = []
        \<and> \<not> reportsSuccess (handleSubmit env w s)
        \<and> \<not> mintFailed (handleSubmit env w s))"
proof -
  have a: "prefix (map stepKind (steps (handleSubmit env w s))) mintSteps
           \<and> list_all (stepOk env) (butlast (steps (handleSubmit env w s)))"
  proof (cases "validRequest w s")
    case True
    then obtain a where w: "w = Some a" using validRequest_Some by blast
    with True show ?thesis
      using stage_prefix [OF stage_mintFlow, of env a s]
      by (simp add: steps_handleSubmit_valid)
  next
    case False
    then show ?thesis by (simp add: handleSubmit_invalid)
  qed
  from a have "prefix (filter ledgerMutating (map stepKind (steps (handleSubmit env w s))))
                 (filter ledgerMutating mintSteps)"
    by (simp add: filter_mono_prefix)
  moreover have "filter ledgerMutating mintSteps
                   = [Post EpSubmitFunding, Post EpCreateNft, Post EpSubmitOptin, Post EpTransferNft]"
    by (simp add: mintSteps_def)
  ultimately have b: "prefix (filter ledgerMutating (map stepKind (steps (handleSubmit env w s))))
        [Post EpSubmitFunding, Post EpCreateNft, Post EpSubmitOptin, Post EpTransferNft]"
    by simp
  have c: "(map stepKind (steps (handleSubmit env w s)) = mintSteps
         \<and> list_all (stepOk env) (steps (handleSubmit env w s))
         \<and> reportsSuccess (handleSubmit env w s)
         \<and> \<not> mintFailed (handleSubmit env w s))
        \<or> (mintFailed (handleSubmit env w s)
           \<and> \<not> reportsSuccess (handleSubmit env w s)
           \<and> failureCause env (handleSubmit env w s))" if v: "validRequest w s"
  proof -
    from v obtain a where w: "w = Some a" using validRequest_Some by blast
    obtain es r where m: "mintFlow env a s = (es, r)" by (cases "mintFlow env a s")
    show ?thesis
    proof (cases r)
      case (Inl t)
      with handleSubmit_failed [of a s env es t] v w m show ?thesis by simp
    next
      case (Inr u)
      with handleSubmit_succeeded [of a s env es u] v w m show ?thesis by simp
    qed
  qed
  have d: "steps (handleSubmit env w s) = []
        \<and> \<not> reportsSuccess (handleSubmit env w s)
        \<and> \<not> mintFailed (handleSubmit env w s)" if "\<not> validRequest w s"
    using that by (simp add: handleSubmit_invalid handleSubmit_not_started)
  from a b c d show ?thesis by blast
qed

theorem mint_steps_in_order_witness:
  "validRequest (Some ''ADDR'') ticket
   \<and> map stepKind (steps (handleSubmit okEnv (Some ''ADDR'') ticket)) = mintSteps
   \<and> list_all (stepOk okEnv) (steps (handleSubmit okEnv (Some ''ADDR'') ticket))
   \<and> reportsSuccess (handleSubmit okEnv (Some ''ADDR'') ticket)
   \<and> steps (handleSubmit createFails (Some ''ADDR'') ticket) =
        [Fetch EpMint (MintBody ''ADDR'' ''Ticket'' ''TCK'' (Some 5000000)),
         SignTransaction (Txn [65, 66, 67]) [''ADDR''],
         Fetch EpSubmitFunding (SignedTxnBody ''QUJD''),
         Fetch EpCreateNft (CreateBody (JString ''ESCROW''))]
   \<and> mintFailed (handleSubmit createFails (Some ''ADDR'') ticket)
   \<and> \<not> reportsSuccess (handleSubmit createFails (Some ''ADDR'') ticket)
   \<and> failureCause createFails (handleSubmit createFails (Some ''ADDR'') ticket)
   \<and> list_all (stepOk createFails) (butlast (steps (handleSubmit createFails (Some ''ADDR'') ticket)))
   \<and> \<not> validRequest None ticket
   \<and> steps (handleSubmit okEnv None ticket) = []"
proof -
  note v = ticket_valid
  have ok: "reportsSuccess (handleSubmit okEnv (Some ''ADDR'') ticket)"
    by (rule ticket_reportsSuccess)
  have fl: "\<not> reportsSuccess (handleSubmit createFails (Some ''ADDR'') ticket)"
    using createFails_failed by simp
  have nv: "\<not> validRequest None ticket" by (simp add: validRequest_def)
  from mint_steps_in_order [of okEnv "Some ''ADDR''" ticket] v ok
  have 1: "map stepKind (steps (handleSubmit okEnv (Some ''ADDR'') ticket)) = mintSteps
           \<and> list_all (stepOk okEnv) (steps (handleSubmit okEnv (Some ''ADDR'') ticket))"
    by blast
  from mint_steps_in_order [of createFails "Some ''ADDR''" ticket] v fl
  have 2: "mintFailed (handleSubmit createFails (Some ''ADDR'') ticket)
           \<and> failureCause createFails (handleSubmit createFails (Some ''ADDR'') ticket)
           \<and> list_all (stepOk createFails)
                (butlast (steps (handleSubmit createFails (Some ''ADDR'') ticket)))"
    by blast
  from mint_steps_in_order [of okEnv None ticket] nv
  have 3: "steps (handleSubmit okEnv None ticket) = []" by blast
  from v ok fl nv 1 2 3 createFails_steps show ?thesis by blast
qed

text \<open>
  What a run posts as its mint request: the name, the unit and \<open>lockedAmount\<close> of the
  amount, once, whenever the request passes validation; without a wallet nothing.
\<close>

lemma mint_request_body:
  "(Fetch EpMint b \<in> set (handleSubmit env (Some a) s) \<longrightarrow>
      b = MintBody a (assetName s) (assetUnit s) (lockedAmount (algoAmount s)))
   \<and> (validRequest (Some a) s \<longrightarrow>
        Fetch EpMint (MintBody a (assetName s) (assetUnit s) (lockedAmount (algoAmount s)))
          \<in> set (handleSubmit env (Some a) s))
   \<and> Fetch EpMint b \<notin> set (handleSubmit env None s)"
proof -
  have none: "Fetch EpMint b \<notin> set (handleSubmit env None s)"
    by (simp add: handleSubmit_def)
  show ?thesis
  proof (cases "validRequest (Some a) s")
    case False
    then have "steps (handleSubmit env (Some a) s) = []" by (simp add: handleSubmit_invalid)
    then have "Fetch EpMint b \<notin> set (handleSubmit env (Some a) s)"
      by (auto simp: steps_def filter_empty_conv)
    with False none show ?thesis by simp
  next
    case True
    obtain es r where m: "mintFlow env a s = (es, r)" by (cases "mintFlow env a s")
    from mintBodyOk_mintFlow [of a s env] m
    have all: "list_all (mintBodyOk a s) es" by (simp add: everyEvent_def)
    have 1: "Fetch EpMint b \<in> set (handleSubmit env (Some a) s) \<Longrightarrow> Fetch EpMint b \<in> set es"
      using True m by (cases r) (auto simp: handleSubmit_valid)
    have 2: "Fetch EpMint b \<in> set es \<Longrightarrow>
               b = MintBody a (assetName s) (assetUnit s) (lockedAmount (algoAmount s))"
      using all by (auto simp: list_all_iff mintBodyOk_def)
    from mintFlow_starts [of env a s] m
    have "Fetch EpMint (MintBody a (assetName s) (assetUnit s) (lockedAmount (algoAmount s)))
            \<in> set es"
      by auto
    then have 3: "Fetch EpMint (MintBody a (assetName s) (assetUnit s) (lockedAmount (algoAmount s)))
                    \<in> set (handleSubmit env (Some a) s)"
      using True m by (cases r) (auto simp: handleSubmit_valid)
    from 1 2 3 none show ?thesis by blast
  qed
qed

text \<open>
  C6: the locked amount that is submitted should be the user's amount in ALGO converted to
  microAlgos, the floor of the amount times 1,000,000. The handler takes the floor of the
  product of two doubles, and the double nearest to a decimal amount can lie just below
  it: for 8.2 ALGO, where the floor of 8.2 times 1,000,000 is 8,200,000, the mint request
  that is posted carries 8,199,999.
\<close>

theorem typed_8_2_posts_8199999:
  "validRequest (Some ''ADDR'') eightPointTwo
   \<and> hd (steps (handleSubmit okEnv (Some ''ADDR'') eightPointTwo))
       = Fetch EpMint (MintBody ''ADDR'' ''Ticket'' ''TCK'' (Some 8199999))
   \<and> \<lfloor>(41 / 5 :: rat) * 1000000\<rfloor> = 8200000"
  using typed_8_2
  by (simp add: run_defs eightPointTwo_def steps_def validRequest_def lockedAmount_8_2)

section \<open>The claims about the redeem page\<close>

lemma redeemStep_quiet: "redeemStep c a = (es, c') \<Longrightarrow> list_all (\<lambda>e. \<not> submission e) es"
  by (cases c; cases a)
     (auto simp: fetchNFTs_def handleBurn_def
           split: if_splits sum.splits redeem_view.splits option.splits)

lemma redeemRun_quiet: "list_all (\<lambda>e. \<not> submission e) (fst (redeemRun c as))"
proof (induction as arbitrary: c)
  case Nil
  show ?case by simp
next
  case (Cons a as)
  obtain es c' where st: "redeemStep c a = (es, c')" by (cases "redeemStep c a")
  obtain es' c'' where rn: "redeemRun c' as = (es', c'')" by (cases "redeemRun c' as")
  from Cons.IH [of c'] rn have "list_all (\<lambda>e. \<not> submission e) es'" by simp
  with redeemStep_quiet [OF st] st rn show ?case by simp
qed

lemma redeemStep_empty:
  "emptyRedeem s \<Longrightarrow> redeemStep (w, s) a = (es, (w', s')) \<Longrightarrow> emptyRedeem s'"
  by (cases a)
     (auto simp: emptyRedeem_def fetchNFTs_def renderRedeem_def
           split: if_splits sum.splits option.splits)

lemma redeemRun_empty:
  "emptyRedeem (snd c) \<Longrightarrow> emptyRedeem (snd (snd (redeemRun c as)))"
proof (induction as arbitrary: c)
  case Nil
  then show ?case by simp
next
  case (Cons a as)
  obtain w s where c: "c = (w, s)" by (cases c)
  obtain es w' s' where st: "redeemStep (w, s) a = (es, (w', s'))"
    by (cases "redeemStep (w, s) a") auto
  from Cons.prems c have "emptyRedeem s" by simp
  from redeemStep_empty [OF this st] have "emptyRedeem (snd (w', s'))" by simp
  from Cons.IH [OF this] c st show ?case by (auto split: prod.splits)
qed

text \<open>
  C8: with an NFT selected, \<open>handleBurn\<close> shows one alert that carries the asset ID and
  does nothing else; whatever is selected, it submits nothing; and no sequence of wallet
  changes and clicks on the redeem page, from any state of the page, posts a request to the
  backend or asks the wallet for a signature.
\<close>

theorem burn_only_alerts:
  "handleBurn (s\<lparr>selectedNFT := Some nft\<rparr>)
     = [Alert (''Burn NFT with Asset ID: '' @ show_nat (assetId nft))]
   \<and> list_all (\<lambda>e. \<not> submission e) (handleBurn s)
   \<and> list_all (\<lambda>e. \<not> submission e) (fst (redeemRun c as))"
  by (simp add: redeemRun_quiet) (simp add: handleBurn_def split: option.splits)

theorem burn_only_alerts_witness:
  "handleBurn (\<lparr>nfts = [ticketNft], selectedNFT = None\<rparr>\<lparr>selectedNFT := Some ticketNft\<rparr>)
     = [Alert ''Burn NFT with Asset ID: 42'']"
proof -
  have "assetId ticketNft = 42" by (simp add: ticketNft_def)
  with burn_only_alerts [where s = "\<lparr>nfts = [ticketNft], selectedNFT = None\<rparr>" and nft = ticketNft]
  show ?thesis by (simp only: show_nat_42 append.simps)
qed

text \<open>
  C9: whatever the algod node answers about the wallet's holdings and whatever the user
  does afterwards, the page's list of NFTs is empty and no NFT is selected; with a wallet
  connected the page therefore shows the message that no redeemable NFT was found, and
  never the grid.
\<close>

theorem redeem_list_always_empty:
  "nfts (snd (snd (redeemPage w answer as))) = []
   \<and> selectedNFT (snd (snd (redeemPage w answer as))) = None
   \<and> renderRedeem (fst (snd (redeemPage w answer as))) (snd (snd (redeemPage w answer as)))
        = (if noWallet (fst (snd (redeemPage w answer as))) then ConnectWalletMessage
           else NoRedeemableMessage)"
proof -
  have "emptyRedeem (snd (None, initialRedeem))"
    by (simp add: emptyRedeem_def initialRedeem_def)
  from redeemRun_empty [OF this, of "WalletChanged w answer # as"]
  have "emptyRedeem (snd (snd (redeemPage w answer as)))" by (simp only: redeemPage_def)
  then show ?thesis by (simp add: emptyRedeem_def renderRedeem_def)
qed

theorem redeem_list_always_empty_witness:
  "fst (snd (redeemPage (Some ''ADDR'') (Inr [ticketHolding]) [ClickNft 0, ClickBurn])) = Some ''ADDR''
   \<and> nfts (snd (snd (redeemPage (Some ''ADDR'') (Inr [ticketHolding]) [ClickNft 0, ClickBurn]))) = []
   \<and> renderRedeem (Some ''ADDR'')
        (snd (snd (redeemPage (Some ''ADDR'') (Inr [ticketHolding]) [ClickNft 0, ClickBurn])))
      = NoRedeemableMessage"
proof -
  have w: "fst (snd (redeemPage (Some ''ADDR'') (Inr [ticketHolding]) [ClickNft 0, ClickBurn]))
             = Some ''ADDR''"
    by (simp add: redeemPage_def fetchNFTs_def renderRedeem_def noWallet_def initialRedeem_def)
  from redeem_list_always_empty
         [of "Some ''ADDR''" "Inr [ticketHolding]" "[ClickNft 0, ClickBurn]"] w
  show ?thesis by (simp add: noWallet_def)
qed

section \<open>The claim about the navigation bar\<close>

text \<open>
  C10: the object that the wallet provider passes down has the four members
  \<open>walletAddress\<close>, \<open>peraWallet\<close>, \<open>connectWallet\<close> and \<open>disconnectWallet\<close> and
  no member \<open>setWalletAddress\<close>; so when the wallet has returned at least one account,
  the navigation bar's connect handler raises a TypeError at the call of
  \<open>setWalletAddress\<close> (its own \<open>catch\<close> logs it), and the wallet address, and with it
  the label of the button, stays what it was.
\<close>

theorem navbar_connect_throws:
  "providerValue st ''setWalletAddress'' = None
   \<and> dom (providerValue st)
       = {''walletAddress'', ''peraWallet'', ''connectWallet'', ''disconnectWallet''}
   \<and> (navbarConnect env = Inr (a # accounts) \<longrightarrow>
        caught (navbarConnectWallet env (providerValue st) st)
          = Some (ErrorObj ''setWalletAddress is not a function'')
        \<and> addressAfter (navbarConnectWallet env (providerValue st) st) = st
        \<and> navbarButton (addressAfter (navbarConnectWallet env (providerValue st) st))
            = navbarButton st)"
  by (auto simp: providerValue_def navbarConnectWallet_def callMember_def)

theorem navbar_connect_throws_witness:
  "navbarConnect walletEnv0 = Inr [''ADDR'']
   \<and> caught (navbarConnectWallet walletEnv0 (providerValue None) None)
       = Some (ErrorObj ''setWalletAddress is not a function'')
   \<and> addressAfter (navbarConnectWallet walletEnv0 (providerValue None) None) = None
   \<and> navbarButton (addressAfter (navbarConnectWallet walletEnv0 (providerValue None) None))
       = ''Connect Wallet''"
proof -
  have c: "navbarConnect walletEnv0 = Inr [''ADDR'']" by (simp add: walletEnv0_def)
  have b: "navbarButton None = ''Connect Wallet''" by (simp add: navbarButton_def)
  from navbar_connect_throws [where st = None and env = walletEnv0 and a = "''ADDR''" and accounts = "[]"] c b
  show ?thesis by simp
qed

section \<open>The claims about the protocol\<close>

text \<open>
  C3, as the specification states it, does not hold: with the stored amount present and
  the escrow balance known, the two computations can differ. An escrow that was funded for
  5,000,000 microAlgos with a reserve of 100,000 and a buffer of 3,000 and has since
  received 1,000,000 more gives 6,000,000 by the fallback and 5,000,000 by the metadata.
\<close>

theorem computeAmount_paths_differ:
  "computeAmount None 6103000 100000 3000 = 6000000
   \<and> computeAmount (Some 5000000) 6103000 100000 3000 = 5000000
   \<and> computeAmount None 6103000 100000 3000 \<noteq> computeAmount (Some 5000000) 6103000 100000 3000"
  by (simp add: computeAmount_def)

text \<open>
  C3, amended: the computed payout is the stored \<open>locked_amount\<close> whenever the metadata
  has one, whatever the escrow balance; without it the payout is the escrow balance less
  the minimum reserve and the fee buffer, or zero if that is negative, and so never
  negative. The two computations agree exactly when the stored amount is that clamped
  difference: for a positive stored amount, exactly when the escrow holds the stored amount,
  the reserve and the buffer and nothing more or less.
\<close>

theorem computeAmount_paths:
  "computeAmount (Some stored) bal reserve fee = stored
   \<and> computeAmount None bal reserve fee = max 0 (bal - reserve - fee)
   \<and> 0 \<le> computeAmount None bal reserve fee
   \<and> ((computeAmount None bal reserve fee = computeAmount (Some stored) bal reserve fee)
        = (stored = max 0 (bal - reserve - fee)))
   \<and> (0 < stored \<longrightarrow>
        (computeAmount None bal reserve fee = computeAmount (Some stored) bal reserve fee)
          = (bal = stored + reserve + fee))"
  by (auto simp: computeAmount_def Let_def)

theorem computeAmount_paths_witness:
  "(0::int) < 5000000
   \<and> computeAmount None 5103000 100000 3000 = computeAmount (Some 5000000) 5103000 100000 3000
   \<and> computeAmount (Some 5000000) 5103000 100000 3000 = 5000000
   \<and> 0 \<le> computeAmount None 5103000 100000 3000"
proof -
  have h: "(0::int) < 5000000" by simp
  have e: "(5103000::int) = 5000000 + 100000 + 3000" by simp
  from computeAmount_paths [of 5000000 5103000 100000 3000] h e
  show ?thesis by blast
qed

lemma applyGroup_two:
  "applyGroup rejects L [a, b] =
     (case applyTxn rejects L a of None \<Rightarrow> None | Some L1 \<Rightarrow> applyTxn rejects L1 b)"
  by (simp split: option.splits)

text \<open>
  C2: the redemption is a group of exactly two transactions, the redeemer's transfer of the
  single asset unit to the escrow and the escrow's payment of the computed amount to the
  redeemer. If either leg is rejected, and in particular if the ledger rejects the payment,
  the submission fails and the ledger is the one it was: the redeemer still holds the asset
  and has been paid nothing. If the submission succeeds, both legs have been applied.
\<close>

theorem redemption_is_atomic:
  "length (redemptionGroup redeemer escrow asset payout) = 2
   \<and> redemptionGroup redeemer escrow asset payout
       = [AssetTransfer redeemer escrow asset 1, Payment escrow redeemer payout]
   \<and> (applyTxn rejects L (AssetTransfer redeemer escrow asset 1) = None
        \<or> (\<exists>L1. applyTxn rejects L (AssetTransfer redeemer escrow asset 1) = Some L1
                 \<and> applyTxn rejects L1 (Payment escrow redeemer payout) = None)
      \<longrightarrow> redeemSwap rejects L redeemer escrow asset payout = (L, False))
   \<and> (rejects (Payment escrow redeemer payout)
      \<longrightarrow> redeemSwap rejects L redeemer escrow asset payout = (L, False))
   \<and> (snd (redeemSwap rejects L redeemer escrow asset payout)
      \<longrightarrow> (\<exists>L1. applyTxn rejects L (AssetTransfer redeemer escrow asset 1) = Some L1
                \<and> applyTxn rejects L1 (Payment escrow redeemer payout)
                    = Some (fst (redeemSwap rejects L redeemer escrow asset payout))))"
  unfolding redeemSwap_def submitGroup_def redemptionGroup_def applyGroup_two
  by (auto split: option.splits)

theorem redemption_is_atomic_witness:
  "rejectPayments (Payment ''ESCROW'' ''REDEEMER'' 5000000)
   \<and> redeemSwap rejectPayments ledger0 ''REDEEMER'' ''ESCROW'' 7 5000000 = (ledger0, False)
   \<and> assetUnits (fst (redeemSwap rejectPayments ledger0 ''REDEEMER'' ''ESCROW'' 7 5000000))
        ''REDEEMER'' 7 = 1
   \<and> snd (redeemSwap acceptAll ledger0 ''REDEEMER'' ''ESCROW'' 7 5000000)
   \<and> (\<exists>L1. applyTxn acceptAll ledger0 (AssetTransfer ''REDEEMER'' ''ESCROW'' 7 1) = Some L1
           \<and> applyTxn acceptAll L1 (Payment ''ESCROW'' ''REDEEMER'' 5000000)
               = Some (fst (redeemSwap acceptAll ledger0 ''REDEEMER'' ''ESCROW'' 7 5000000)))"
proof -
  have r: "rejectPayments (Payment ''ESCROW'' ''REDEEMER'' 5000000)"
    by (simp add: rejectPayments_def)
  have ok: "snd (redeemSwap acceptAll ledger0 ''REDEEMER'' ''ESCROW'' 7 5000000)"
    by (simp add: redeemSwap_def submitGroup_def redemptionGroup_def acceptAll_def ledger0_def)
  have u: "assetUnits ledger0 ''REDEEMER'' 7 = 1" by (simp add: ledger0_def)
  from redemption_is_atomic
         [of "''REDEEMER''" "''ESCROW''" 7 5000000 rejectPayments ledger0] r
  have 1: "redeemSwap rejectPayments ledger0 ''REDEEMER'' ''ESCROW'' 7 5000000 = (ledger0, False)"
    by blast
  from redemption_is_atomic
         [of "''REDEEMER''" "''ESCROW''" 7 5000000 acceptAll ledger0] ok
  have 2: "\<exists>L1. applyTxn acceptAll ledger0 (AssetTransfer ''REDEEMER'' ''ESCROW'' 7 1) = Some L1
           \<and> applyTxn acceptAll L1 (Payment ''ESCROW'' ''REDEEMER'' 5000000)
               = Some (fst (redeemSwap acceptAll ledger0 ''REDEEMER'' ''ESCROW'' 7 5000000))"
    by blast
  from r ok u 1 2 show ?thesis by simp
qed

end
